theory Spec2Isabelle
  imports Main "HOL-Library.Sublist"
begin

section \<open>JavaScript strings and arrays\<close>

text \<open>
  A JavaScript string is modelled as a \<^typ>\<open>string\<close>: one \<^typ>\<open>char\<close> per code unit, for
  the code units below 256. \<open>String.prototype.trim\<close> removes white space and line
  terminators at both ends; below 256 these are TAB, LF, VT, FF, CR, SP and NBSP.
\<close>

definition is_ws :: "char \<Rightarrow> bool" where
  "is_ws c \<longleftrightarrow>
     c = CHR 0x09 \<or> c = CHR 0x0A \<or> c = CHR 0x0B \<or> c = CHR 0x0C \<or> c = CHR 0x0D \<or>
     c = CHR 0x20 \<or> c = CHR 0xA0"

definition trim :: "string \<Rightarrow> string" where
  "trim s = rev (dropWhile is_ws (rev (dropWhile is_ws s)))"

text \<open>\<open>s.startsWith(p)\<close>.\<close>

definition startsWith :: "string \<Rightarrow> string \<Rightarrow> bool" where
  "startsWith s p \<longleftrightarrow> take (length p) s = p"

text \<open>\<open>s.indexOf(c)\<close> for a one-character pattern: the first position, or -1.\<close>

definition indexOf :: "string \<Rightarrow> char \<Rightarrow> int" where
  "indexOf s c = (if c \<in> set s then int (length (takeWhile (\<lambda>d. d \<noteq> c) s)) else - 1)"

text \<open>
  \<open>xs.slice(start)\<close> on a string or an array: a negative \<open>start\<close> counts from the end,
  and the start is clamped to the range \<open>0 .. length\<close>.
\<close>

definition slice :: "'a list \<Rightarrow> int \<Rightarrow> 'a list" where
  "slice xs start =
     (let len = int (length xs);
          k = (if start < 0 then max (len + start) 0 else min start len)
      in drop (nat k) xs)"

text \<open>\<open>raw.split(/\r?\n/)\<close>: the separators are LF and CR LF; a CR alone stays in its line.\<close>

fun split_lines :: "string \<Rightarrow> string list" where
  "split_lines [] = [[]]"
| "split_lines [c] = (if c = CHR 0x0A then [[], []] else [[c]])"
| "split_lines (c # d # cs) =
     (if c = CHR 0x0D \<and> d = CHR 0x0A then [] # split_lines cs
      else if c = CHR 0x0A then [] # split_lines (d # cs)
      else (case split_lines (d # cs) of
              [] \<Rightarrow> [[c]]
            | l # ls \<Rightarrow> (c # l) # ls))"

text \<open>
  \<open>s.replace(/^['"]|['"]$/g, "")\<close>: one quote character is removed at the start, if there
  is one, and one at the end of what is left, if there is one.
\<close>

definition is_quote :: "char \<Rightarrow> bool" where
  "is_quote c \<longleftrightarrow> c = CHR 0x27 \<or> c = CHR 0x22"

definition strip_leading_quote :: "string \<Rightarrow> string" where
  "strip_leading_quote s = (case s of [] \<Rightarrow> [] | c # cs \<Rightarrow> if is_quote c then cs else s)"

definition strip_trailing_quote :: "string \<Rightarrow> string" where
  "strip_trailing_quote s = (if s \<noteq> [] \<and> is_quote (last s) then butlast s else s)"

definition strip_quotes :: "string \<Rightarrow> string" where
  "strip_quotes s = strip_trailing_quote (strip_leading_quote s)"

text \<open>\<open>chunks.join(sep)\<close> on an array of strings.\<close>

fun join :: "string \<Rightarrow> string list \<Rightarrow> string" where
  "join sep [] = []"
| "join sep [x] = x"
| "join sep (x # y # ys) = x @ sep @ join sep (y # ys)"

text \<open>The decimal digits of a number, as a template literal prints an integer.\<close>

definition digit :: "nat \<Rightarrow> char" where
  "digit d = ''0123456789'' ! d"

fun digits :: "nat \<Rightarrow> string" where
  "digits n =
     (if n < 10 then [digit n]
      else digits (n div 10) @ [digit (n mod 10)])"

declare digits.simps [simp del]

definition decimal :: "int \<Rightarrow> string" where
  "decimal i = (if i < 0 then CHR ''-'' # digits (nat (- i)) else digits (nat i))"

section \<open>The assistant proxy: \<open>web/src/app/api/digital-twin/route.ts\<close>\<close>

definition OPENROUTER_URL :: string where
  "OPENROUTER_URL = ''https://openrouter.ai/api/v1/chat/completions''"

definition OPENROUTER_MODEL :: string where
  "OPENROUTER_MODEL = ''gpt-oss-120b''"

definition MAX_MESSAGES :: int where
  "MAX_MESSAGES = 12"

definition DIGITAL_TWIN_SYSTEM_PROMPT :: string where
  "DIGITAL_TWIN_SYSTEM_PROMPT =
''\<newline>You are AdrianAI, a digital twin for Adrian Kolek.\<newline>\<newline>'' @
''Role and style:\<newline>'' @
''- Speak in first person when describing Adrian's experience.\<newline>'' @
''- Be confident, professional, and concise.\<newline>'' @
''- Keep answers factual and grounded in the profile below.\<newline>'' @
''- If a question asks for unknown details, say you do not have that information.\<newline>'' @
''- Do not invent companies, dates, credentials, metrics, or outcomes.\<newline>\<newline>'' @
''Career profile facts:\<newline>'' @
''- Name: Adrian Kolek\<newline>'' @
''- Current role: Lead Architect at AQA Architecture and Innovation (Apr 2022 - Present), based in Milton Keynes, England, UK.\<newline>'' @
''- Core specialization: Azure PaaS modernization and migration using cloud-optimized patterns.\<newline>'' @
''- Strengths: Solution architecture, enterprise architecture, board-level engagement, strategy-to-delivery leadership, mentoring, hands-on engineering when needed.\<newline>\<newline>'' @
''Experience highlights:\<newline>'' @
''- Product Architect at DRS Data Services (Jan 2015 - May 2022).\<newline>'' @
''- Solutions Architect at DRS Data Services (Mar 2010 - Feb 2015):\<newline>'' @
''  - Architected online exam-marking products used at very high volume in the UK and India.\<newline>'' @
''  - Architected election systems used for high-profile London elections (2012 and 2016).\<newline>'' @
''- Deputy Software Development Manager at DRS (Dec 2007 - Mar 2010):\<newline>'' @
''  - Led technical direction, agile standardization, and quality engineering initiatives.\<newline>'' @
''- Technical Team Lead and Senior Developer roles across DRS, Webdev Consulting, and National Mutual Life.\<newline>'' @
''- Early foundation in end-to-end software development, systems design, and mentoring.\<newline>\<newline>'' @
''Certifications:\<newline>'' @
''- Microsoft Certified: Azure Solutions Architect Expert\<newline>'' @
''- Microsoft Certified Solutions Developer (MCSD)\<newline>'' @
''- Microsoft Certified Professional (MCP) - Windows Applications\<newline>''"

subsection \<open>Values of unknown type\<close>

text \<open>
  A value the code inspects at run time (\<open>typeof\<close>, \<open>Array.isArray\<close>, \<open>in\<close>): a value
  parsed from JSON. A number is kept as the text \<open>String\<close> gives for it, the only thing
  the code ever asks of a number; an object is the list of its own properties, read by
  \<open>map_of\<close>. An absent property (\<open>undefined\<close>) is \<open>None\<close> of a \<^typ>\<open>'a option\<close>.
\<close>

datatype jsval =
    JNull
  | JBool bool
  | JNum string
  | JStr string
  | JArr "jsval list"
  | JObj "(string \<times> jsval) list"

datatype js_exception = TypeError

text \<open>
  \<open>String(v)\<close>. An array prints its elements separated by commas, \<open>null\<close> elements as
  the empty string. A plain object prints as \<open>[object Object]\<close>; one parsed from JSON
  with a property \<open>toString\<close> of its own hides the method by a value that cannot be
  called, and the conversion throws a \<open>TypeError\<close>.
\<close>

fun js_String :: "jsval \<Rightarrow> js_exception + string"
  and js_join :: "jsval list \<Rightarrow> js_exception + string" where
  "js_String JNull = Inr ''null''"
| "js_String (JBool b) = Inr (if b then ''true'' else ''false'')"
| "js_String (JNum text) = Inr text"
| "js_String (JStr s) = Inr s"
| "js_String (JArr xs) = js_join xs"
| "js_String (JObj props) =
     (if ''toString'' \<in> fst ` set props then Inl TypeError else Inr ''[object Object]'')"
| "js_join [] = Inr []"
| "js_join (x # xs) =
     (case (if x = JNull then Inr [] else js_String x) of
        Inl e \<Rightarrow> Inl e
      | Inr s \<Rightarrow>
          (if xs = [] then Inr s
           else (case js_join xs of
                   Inl e \<Rightarrow> Inl e
                 | Inr rest \<Rightarrow> Inr (s @ '','' @ rest))))"

subsection \<open>Resolving the credential\<close>

text \<open>
  What the proxy reads of its process: the two environment variables, the file
  \<open>../.env\<close> (\<open>None\<close> when \<open>readFileSync\<close> throws) and, as a counter, the calls of
  \<open>readFileSync\<close> made so far.
\<close>

record process =
  env_OPENROUTER_API_KEY :: "string option"
  env_NEXT_PUBLIC_SITE_URL :: "string option"
  parent_env_file :: "string option"
  file_reads :: nat

definition readApiKeyFromParentEnv :: "process \<Rightarrow> string option \<times> process" where
  "readApiKeyFromParentEnv p =
     (let p' = p\<lparr>file_reads := file_reads p + 1\<rparr> in
      case parent_env_file p of
        None \<Rightarrow> (None, p')
      | Some raw \<Rightarrow>
          (let lines = split_lines raw in
           case find (\<lambda>line. startsWith (trim line) ''OPENROUTER_API_KEY='') lines of
             None \<Rightarrow> (None, p')
           | Some keyLine \<Rightarrow>
               (let v = strip_quotes (trim (slice keyLine (indexOf keyLine CHR ''='' + 1)))
                in (if v = [] then None else Some v, p'))))"

definition getApiKey :: "process \<Rightarrow> string option \<times> process" where
  "getApiKey p =
     (case env_OPENROUTER_API_KEY p of
        None \<Rightarrow> readApiKeyFromParentEnv p
      | Some e \<Rightarrow> if trim e \<noteq> [] then (Some (trim e), p) else readApiKeyFromParentEnv p)"

subsection \<open>Normalizing the provider's content\<close>

text \<open>What one element of a content array contributes, before the empty ones are dropped.\<close>

definition chunk_text :: "jsval \<Rightarrow> js_exception + string" where
  "chunk_text chunk =
     (case chunk of
        JStr s \<Rightarrow> Inr s
      | JObj props \<Rightarrow>
          (if map_of props ''type'' \<noteq> None \<and> map_of props ''text'' \<noteq> None \<and>
              map_of props ''type'' = Some (JStr ''text'')
           then (case map_of props ''text'' of
                   Some JNull \<Rightarrow> Inr []
                 | Some t \<Rightarrow> js_String t
                 | None \<Rightarrow> Inr [])
           else Inr [])
      | _ \<Rightarrow> Inr [])"

text \<open>\<open>content.map(...)\<close>, stopping at the first element whose conversion throws.\<close>

fun map_chunks :: "jsval list \<Rightarrow> js_exception + string list" where
  "map_chunks [] = Inr []"
| "map_chunks (c # cs) =
     (case chunk_text c of
        Inl e \<Rightarrow> Inl e
      | Inr s \<Rightarrow> (case map_chunks cs of Inl e \<Rightarrow> Inl e | Inr ss \<Rightarrow> Inr (s # ss)))"

definition extractAssistantText :: "jsval option \<Rightarrow> js_exception + string" where
  "extractAssistantText content =
     (case content of
        Some (JStr s) \<Rightarrow> Inr (trim s)
      | Some (JArr cs) \<Rightarrow>
          (case map_chunks cs of
             Inl e \<Rightarrow> Inl e
           | Inr chunks \<Rightarrow> Inr (trim (join ''\<newline>'' (filter (\<lambda>s. s \<noteq> []) chunks))))
      | _ \<Rightarrow> Inr [])"

subsection \<open>The request handler\<close>

text \<open>
  Reading a property \<open>v.name\<close>, for the names the code reads (\<open>messages\<close>, \<open>role\<close>,
  \<open>content\<close>, \<open>reply\<close>, \<open>error\<close>), which no prototype defines: of \<open>null\<close> the read
  throws a \<open>TypeError\<close>, of an object it gives the object's own property, and of any
  other value it gives \<open>undefined\<close>.
\<close>

definition get_property :: "jsval \<Rightarrow> string \<Rightarrow> js_exception + jsval option" where
  "get_property v name =
     (case v of
        JNull \<Rightarrow> Inl TypeError
      | JObj props \<Rightarrow> Inr (map_of props name)
      | _ \<Rightarrow> Inr None)"

text \<open>
  What \<open>request.json()\<close> gives: it throws, or it returns the value parsed from the body.
  The handler casts that value to its payload type without a test.
\<close>

datatype request_body =
    InvalidJson
  | Payload jsval

datatype response_body =
    ErrorBody string
  | ReplyBody string string

record http_response =
  status :: nat
  body :: response_body

text \<open>
  What an invocation of the handler comes to: the response it returns, or an exception
  that no \<open>catch\<close> clause of the handler receives.
\<close>

datatype handler_result =
    Responds http_response
  | Uncaught js_exception

text \<open>
  The call of the provider: the headers and the body of the \<open>fetch\<close>. The temperature
  0.4 is written in tenths.
\<close>

record provider_request =
  url :: string
  authorization :: string
  http_referer :: string
  x_title :: string
  model :: string
  temperature_tenths :: nat
  max_tokens :: nat
  call_messages :: "jsval list"

text \<open>The provider's payload, as the handler declares it.\<close>

record choice_message =
  message_content :: "jsval option"

record choice =
  choice_message :: "choice_message option"

record provider_error =
  error_message :: "string option"

record provider_data =
  data_error :: "provider_error option"
  data_choices :: "choice list option"

text \<open>
  What the \<open>fetch\<close> and the \<open>response.json()\<close> after it come to: \<open>fetch\<close> throws, the body
  is no JSON, or there is a response with its \<open>ok\<close> flag and its payload. A body that
  is \<open>null\<close> counts with the bodies that are no JSON: the handler's first read of it
  throws inside the same \<open>try\<close> block.
\<close>

datatype provider_outcome =
    FetchThrows
  | BodyNotJson
  | ProviderResponse bool provider_data

text \<open>
  The callback of the \<open>filter\<close>. It reads \<open>message.role\<close> first, and \<open>message.content\<close>
  only when the role is one of the two.
\<close>

definition valid_message :: "jsval \<Rightarrow> js_exception + bool" where
  "valid_message message =
     (case get_property message ''role'' of
        Inl e \<Rightarrow> Inl e
      | Inr r \<Rightarrow>
          (if r = Some (JStr ''user'') \<or> r = Some (JStr ''assistant'')
           then (case get_property message ''content'' of
                   Inl e \<Rightarrow> Inl e
                 | Inr (Some (JStr c)) \<Rightarrow> Inr (length (trim c) > 0)
                 | Inr _ \<Rightarrow> Inr False)
           else Inr False))"

text \<open>\<open>messages.filter(...)\<close>: the callback is called entry by entry, and its exception ends the call.\<close>

fun filter_messages :: "jsval list \<Rightarrow> js_exception + jsval list" where
  "filter_messages [] = Inr []"
| "filter_messages (message # rest) =
     (case valid_message message of
        Inl e \<Rightarrow> Inl e
      | Inr keep \<Rightarrow>
          (case filter_messages rest of
             Inl e \<Rightarrow> Inl e
           | Inr kept \<Rightarrow> Inr (if keep then message # kept else kept)))"

definition safeMessages :: "jsval \<Rightarrow> js_exception + jsval list" where
  "safeMessages payload =
     (case get_property payload ''messages'' of
        Inl e \<Rightarrow> Inl e
      | Inr (Some (JArr ms)) \<Rightarrow>
          (case filter_messages ms of
             Inl e \<Rightarrow> Inl e
           | Inr kept \<Rightarrow> Inr (slice kept (- MAX_MESSAGES)))
      | Inr _ \<Rightarrow> Inr [])"

definition provider_call :: "process \<Rightarrow> string \<Rightarrow> jsval list \<Rightarrow> provider_request" where
  "provider_call p apiKey safe =
     \<lparr>url = OPENROUTER_URL,
      authorization = ''Bearer '' @ apiKey,
      http_referer =
        (case env_NEXT_PUBLIC_SITE_URL p of
           None \<Rightarrow> ''http://localhost:3000''
         | Some u \<Rightarrow> if u = [] then ''http://localhost:3000'' else u),
      x_title = ''Adrian Kolek Digital Twin'',
      model = OPENROUTER_MODEL,
      temperature_tenths = 4,
      max_tokens = 500,
      call_messages =
        JObj [(''role'', JStr ''system''),
              (''content'', JStr (trim DIGITAL_TWIN_SYSTEM_PROMPT))] # safe\<rparr>"

text \<open>\<open>data.choices?.[0]?.message?.content\<close>.\<close>

definition first_content :: "provider_data \<Rightarrow> jsval option" where
  "first_content d =
     (case data_choices d of
        None \<Rightarrow> None
      | Some [] \<Rightarrow> None
      | Some (c # _) \<Rightarrow>
          (case choice_message c of
             None \<Rightarrow> None
           | Some m \<Rightarrow> message_content m))"

text \<open>\<open>data.error?.message || "OpenRouter request failed."\<close>.\<close>

definition provider_failure_text :: "provider_data \<Rightarrow> string" where
  "provider_failure_text d =
     (case data_error d of
        None \<Rightarrow> ''OpenRouter request failed.''
      | Some e \<Rightarrow>
          (case error_message e of
             None \<Rightarrow> ''OpenRouter request failed.''
           | Some m \<Rightarrow> if m = [] then ''OpenRouter request failed.'' else m))"

text \<open>The \<open>try\<close> block of the handler, once the provider has answered or failed.\<close>

definition provider_reply :: "provider_outcome \<Rightarrow> http_response" where
  "provider_reply outcome =
     (case outcome of
        FetchThrows \<Rightarrow>
          \<lparr>status = 502, body = ErrorBody ''Unable to reach OpenRouter. Please try again.''\<rparr>
      | BodyNotJson \<Rightarrow>
          \<lparr>status = 502, body = ErrorBody ''Unable to reach OpenRouter. Please try again.''\<rparr>
      | ProviderResponse ok d \<Rightarrow>
          (if \<not> ok then \<lparr>status = 502, body = ErrorBody (provider_failure_text d)\<rparr>
           else (case extractAssistantText (first_content d) of
                   Inl e \<Rightarrow>
                     \<lparr>status = 502,
                      body = ErrorBody ''Unable to reach OpenRouter. Please try again.''\<rparr>
                 | Inr reply \<Rightarrow>
                     (if reply = []
                      then \<lparr>status = 502, body = ErrorBody ''Model returned an empty response.''\<rparr>
                      else \<lparr>status = 200, body = ReplyBody reply OPENROUTER_MODEL\<rparr>))))"

text \<open>
  The handler. The provider is a function from the call to its outcome; the result is
  what the invocation comes to, the calls of the provider that were made, and the
  process afterwards. The sanitized list is computed between the two \<open>try\<close> blocks, so
  an exception of the filter is caught by neither.
\<close>

definition POST ::
  "process \<Rightarrow> request_body \<Rightarrow> (provider_request \<Rightarrow> provider_outcome)
     \<Rightarrow> handler_result \<times> provider_request list \<times> process" where
  "POST p request provider =
     (case getApiKey p of
        (None, p') \<Rightarrow>
          (Responds
             \<lparr>status = 500,
              body = ErrorBody
                ''OPENROUTER_API_KEY is missing. Add it to web/.env.local or ../.env.''\<rparr>,
           [], p')
      | (Some apiKey, p') \<Rightarrow>
          (case request of
             InvalidJson \<Rightarrow>
               (Responds \<lparr>status = 400, body = ErrorBody ''Invalid JSON body.''\<rparr>, [], p')
           | Payload payload \<Rightarrow>
               (case safeMessages payload of
                  Inl e \<Rightarrow> (Uncaught e, [], p')
                | Inr safe \<Rightarrow>
                    (if length safe = 0
                     then (Responds
                             \<lparr>status = 400,
                              body = ErrorBody ''Provide at least one valid message.''\<rparr>,
                           [], p')
                     else (let call = provider_call p' apiKey safe
                           in (Responds (provider_reply (provider call)), [call], p'))))))"

text \<open>A sequence of invocations in one process, each with its request and its provider.\<close>

fun serve ::
  "process \<Rightarrow> (request_body \<times> (provider_request \<Rightarrow> provider_outcome)) list
     \<Rightarrow> handler_result list \<times> process" where
  "serve p [] = ([], p)"
| "serve p ((request, provider) # rest) =
     (case POST p request provider of
        (result, calls, p') \<Rightarrow>
          (case serve p' rest of (results, p'') \<Rightarrow> (result # results, p'')))"



section \<open>The chat client: \<open>DigitalTwinChat\<close>\<close>

datatype ChatRole = User | Assistant

text \<open>The role as a template literal prints it.\<close>

definition role_text :: "ChatRole \<Rightarrow> string" where
  "role_text r = (case r of User \<Rightarrow> ''user'' | Assistant \<Rightarrow> ''assistant'')"

record ChatMessage =
  msg_id :: string
  msg_role :: ChatRole
  msg_content :: string

text \<open>
  \<open>newMessage\<close> reads the clock and the random source. They are arguments here: \<open>now\<close>
  is \<open>Date.now()\<close>, and \<open>rnd\<close> is \<open>Math.random().toString(36).slice(2, 8)\<close>, a text of six
  characters at most.
\<close>

definition newMessage :: "ChatRole \<Rightarrow> string \<Rightarrow> int \<Rightarrow> string \<Rightarrow> ChatMessage" where
  "newMessage r c now rnd =
     \<lparr>msg_id = role_text r @ ''-'' @ decimal now @ ''-'' @ rnd,
      msg_role = r,
      msg_content = c\<rparr>"

definition greeting :: string where
  "greeting =
     ''I am AdrianAI, a digital twin assistant. Ask me anything about Adrian's career journey, architecture leadership, and cloud modernization expertise.''"

text \<open>
  The four pieces of component state. Each operation below is applied to the state of
  the latest rendering.
\<close>

record chat_state =
  messages :: "ChatMessage list"
  draft :: string
  isLoading :: bool
  error :: "string option"

text \<open>The state at the first rendering: the \<open>useState\<close> initial values.\<close>

definition DigitalTwinChat :: "int \<Rightarrow> string \<Rightarrow> chat_state" where
  "DigitalTwinChat now rnd =
     \<lparr>messages = [newMessage Assistant greeting now rnd],
      draft = [],
      isLoading = False,
      error = None\<rparr>"

text \<open>What a \<open>catch\<close> clause receives: an \<open>Error\<close> with its message, or any other value.\<close>

datatype thrown = Error string | NotAnError

text \<open>
  What the \<open>fetch\<close> of the proxy and the \<open>response.json()\<close> after it come to: one of
  them throws, or there is a response with its \<open>ok\<close> flag and the value parsed from its
  body, which the client casts to its payload type without a test.
\<close>

datatype proxy_outcome =
    Rejected thrown
  | Responded bool jsval


text \<open>
  \<open>sendPrompt\<close> up to its \<open>await\<close>: the new state, and the body of the request that is
  sent, if one is.
\<close>

definition sendPrompt ::
  "chat_state \<Rightarrow> string \<Rightarrow> int \<Rightarrow> string \<Rightarrow> chat_state \<times> (ChatRole \<times> string) list option" where
  "sendPrompt s rawPrompt now rnd =
     (let prompt = trim rawPrompt in
      if prompt = [] \<or> isLoading s then (s, None)
      else (let userMessage = newMessage User prompt now rnd;
                nextMessages = messages s @ [userMessage]
            in (s\<lparr>messages := nextMessages, draft := [], error := None, isLoading := True\<rparr>,
                Some (map (\<lambda>message. (msg_role message, msg_content message)) nextMessages))))"

text \<open>The success path after the \<open>await\<close>, with the \<open>finally\<close> clause.\<close>

definition on_success :: "chat_state \<Rightarrow> string \<Rightarrow> int \<Rightarrow> string \<Rightarrow> chat_state" where
  "on_success s reply now rnd =
     s\<lparr>messages := messages s @ [newMessage Assistant reply now rnd], isLoading := False\<rparr>"

text \<open>
  The message of the \<open>catch\<close> clause:
  \<open>sendError instanceof Error ? sendError.message : "Unable to connect ..."\<close>.
\<close>

definition failure_message :: "thrown \<Rightarrow> string" where
  "failure_message sendError =
     (case sendError of
        Error m \<Rightarrow> m
      | NotAnError \<Rightarrow> ''Unable to connect to the digital twin right now.'')"

text \<open>The \<open>catch\<close> clause, with the \<open>finally\<close> clause.\<close>

definition on_failure :: "chat_state \<Rightarrow> thrown \<Rightarrow> chat_state" where
  "on_failure s sendError = s\<lparr>error := Some (failure_message sendError), isLoading := False\<rparr>"

text \<open>\<open>typeof data.reply === "string" ? data.reply.trim() : ""\<close>.\<close>

definition reply_text :: "jsval \<Rightarrow> js_exception + string" where
  "reply_text data =
     (case get_property data ''reply'' of
        Inl e \<Rightarrow> Inl e
      | Inr (Some (JStr r)) \<Rightarrow> Inr (trim r)
      | Inr _ \<Rightarrow> Inr [])"

text \<open>
  The message of \<open>new Error(data.error ?? "Unable to get a response from AdrianAI.")\<close>:
  the fallback stands in for \<open>undefined\<close> and \<open>null\<close> only, and the constructor turns any
  other value into a string.
\<close>

definition error_text :: "jsval \<Rightarrow> js_exception + string" where
  "error_text data =
     (case get_property data ''error'' of
        Inl e \<Rightarrow> Inl e
      | Inr None \<Rightarrow> Inr ''Unable to get a response from AdrianAI.''
      | Inr (Some JNull) \<Rightarrow> Inr ''Unable to get a response from AdrianAI.''
      | Inr (Some v) \<Rightarrow> js_String v)"

text \<open>
  \<open>sendPrompt\<close> from its \<open>await\<close> on. An exception that the engine throws in the \<open>try\<close>
  block is an \<open>Error\<close> whose message is the engine's own; \<open>engine\<close> gives that message.
\<close>

definition settle ::
  "(js_exception \<Rightarrow> string) \<Rightarrow> chat_state \<Rightarrow> proxy_outcome \<Rightarrow> int \<Rightarrow> string \<Rightarrow> chat_state" where
  "settle engine s outcome now rnd =
     (case outcome of
        Rejected sendError \<Rightarrow> on_failure s sendError
      | Responded ok data \<Rightarrow>
          (case reply_text data of
             Inl e \<Rightarrow> on_failure s (Error (engine e))
           | Inr reply \<Rightarrow>
               (if \<not> ok \<or> reply = []
                then (case error_text data of
                        Inl e \<Rightarrow> on_failure s (Error (engine e))
                      | Inr m \<Rightarrow> on_failure s (Error m))
                else on_success s reply now rnd)))"

text \<open>
  The operations on the conversation, each with the clock and random values it draws
  if it makes a message.
\<close>

datatype operation =
    Submit string int string
  | Settle proxy_outcome int string

definition apply_operation ::
  "(js_exception \<Rightarrow> string) \<Rightarrow> chat_state \<Rightarrow> operation \<Rightarrow> chat_state" where
  "apply_operation engine s operation =
     (case operation of
        Submit rawPrompt now rnd \<Rightarrow> fst (sendPrompt s rawPrompt now rnd)
      | Settle outcome now rnd \<Rightarrow> settle engine s outcome now rnd)"

definition run :: "(js_exception \<Rightarrow> string) \<Rightarrow> chat_state \<Rightarrow> operation list \<Rightarrow> chat_state" where
  "run engine s operations = foldl (apply_operation engine) s operations"

text \<open>
  The status the interface shows: the button reads \<open>Sending...\<close> while \<open>isLoading\<close>;
  otherwise the error paragraph is rendered by \<open>error && ...\<close>, so it shows an error
  that is a text and not empty, and nothing for \<open>null\<close> and for the empty text.
\<close>

datatype ui_status = Idle | Sending | Failed string

definition shown_status :: "chat_state \<Rightarrow> ui_status" where
  "shown_status s =
     (if isLoading s then Sending
      else (case error s of
              None \<Rightarrow> Idle
            | Some m \<Rightarrow> if m = [] then Idle else Failed m))"

section \<open>The vocabulary of the specification\<close>

text \<open>
  The specification's condition for an entry to be kept: its role is \<open>user\<close> or
  \<open>assistant\<close>, and its content is a text that is not empty after trimming.
\<close>

definition survives :: "jsval \<Rightarrow> bool" where
  "survives m \<longleftrightarrow>
     (\<exists>props r c. m = JObj props \<and>
        map_of props ''role'' = Some (JStr r) \<and> (r = ''user'' \<or> r = ''assistant'') \<and>
        map_of props ''content'' = Some (JStr c) \<and> trim c \<noteq> [])"

text \<open>The last \<open>n\<close> entries of a list, in their order.\<close>

definition last_entries :: "nat \<Rightarrow> 'a list \<Rightarrow> 'a list" where
  "last_entries n xs = rev (take n (rev xs))"

text \<open>
  The text field of a chunk whose tag is \<open>text\<close>; a value that is no such chunk has
  none.
\<close>

definition text_field :: "jsval \<Rightarrow> jsval option" where
  "text_field c =
     (case c of
        JObj props \<Rightarrow>
          (if map_of props ''type'' = Some (JStr ''text'') then map_of props ''text'' else None)
      | _ \<Rightarrow> None)"

text \<open>
  Whether \<open>String\<close> can print the text field of a chunk: every element of a content
  sequence but a chunk tagged \<open>text\<close> whose text field is, or holds in an array, an
  object with a \<open>toString\<close> property of its own.
\<close>

definition printable :: "jsval \<Rightarrow> bool" where
  "printable c \<longleftrightarrow>
     (case text_field c of
        None \<Rightarrow> True
      | Some t \<Rightarrow> t = JNull \<or> js_String t \<noteq> Inl TypeError)"

text \<open>
  What an element of a content sequence contributes: a bare string itself; a chunk
  tagged \<open>text\<close> its text field, which is a string as it is, \<open>null\<close> as the empty text,
  and any other value as \<open>String\<close> prints it; every other element the empty text.
\<close>

definition contributed :: "jsval \<Rightarrow> string" where
  "contributed c =
     (case c of
        JStr s \<Rightarrow> s
      | _ \<Rightarrow>
          (case text_field c of
             None \<Rightarrow> []
           | Some JNull \<Rightarrow> []
           | Some t \<Rightarrow> (case js_String t of Inr s \<Rightarrow> s | Inl e \<Rightarrow> [])))"

section \<open>Properties\<close>

subsection \<open>The assistant proxy: the credential\<close>

lemma find_first:
  "\<forall>l\<in>set pre. \<not> P l \<Longrightarrow> P x \<Longrightarrow> find P (pre @ x # post) = Some x"
  by (induction pre) auto

lemma trim_keeps_word:
  assumes "\<forall>c\<in>set ind. is_ws c" and "k \<noteq> []" and "\<not> is_ws (hd k)" and "\<not> is_ws (last k)"
  shows "trim (ind @ k @ v) = k @ rev (dropWhile is_ws (rev v))"
proof -
  have front: "dropWhile is_ws (ind @ k @ v) = k @ v"
  proof -
    have "dropWhile is_ws (ind @ k @ v) = dropWhile is_ws (k @ v)"
      using assms(1) by (intro dropWhile_append2) auto
    also have "\<dots> = k @ v"
      using assms(2,3) by (cases k) auto
    finally show ?thesis .
  qed
  have rear: "dropWhile is_ws (rev v @ rev k) = dropWhile is_ws (rev v) @ rev k"
  proof (cases "\<forall>c\<in>set (rev v). is_ws c")
    case True
    then have "dropWhile is_ws (rev v @ rev k) = dropWhile is_ws (rev k)"
      by (intro dropWhile_append2) auto
    moreover have "dropWhile is_ws (rev k) = rev k"
      using assms(2,4) by (cases "rev k") (auto simp: hd_rev[symmetric] last_rev)
    moreover have "dropWhile is_ws (rev v) = []"
      using True by simp
    ultimately show ?thesis by simp
  next
    case False
    then show ?thesis by (auto simp: dropWhile_append1)
  qed
  show ?thesis
    unfolding trim_def front by (simp add: rear)
qed

lemma indexOf_first:
  "c \<notin> set a \<Longrightarrow> indexOf (a @ c # v) c = int (length a)"
proof -
  assume "c \<notin> set a"
  then have "takeWhile (\<lambda>d. d \<noteq> c) (a @ c # v) = a"
    by (induction a) auto
  then show ?thesis by (simp add: indexOf_def)
qed

lemma slice_after:
  "slice (a @ c # v) (int (length a) + 1) = v"
  by (simp add: slice_def Let_def min_def nat_add_distrib)

lemma key_line_value:
  assumes ind: "\<forall>c\<in>set ind. is_ws c"
  shows "startsWith (trim (ind @ ''OPENROUTER_API_KEY='' @ v)) ''OPENROUTER_API_KEY=''"
    and "slice (ind @ ''OPENROUTER_API_KEY='' @ v)
           (indexOf (ind @ ''OPENROUTER_API_KEY='' @ v) CHR ''='' + 1) = v"
proof -
  have "trim (ind @ ''OPENROUTER_API_KEY='' @ v)
          = ''OPENROUTER_API_KEY='' @ rev (dropWhile is_ws (rev v))"
    using ind by (intro trim_keeps_word) (simp_all add: is_ws_def)
  then show "startsWith (trim (ind @ ''OPENROUTER_API_KEY='' @ v)) ''OPENROUTER_API_KEY=''"
    by (simp add: startsWith_def)
  have no_eq: "CHR ''='' \<notin> set (ind @ ''OPENROUTER_API_KEY'')"
  proof -
    have "\<not> is_ws CHR ''=''" by (simp add: is_ws_def)
    with ind have "CHR ''='' \<notin> set ind" by blast
    then show ?thesis by simp
  qed
  have split: "ind @ ''OPENROUTER_API_KEY='' @ v = (ind @ ''OPENROUTER_API_KEY'') @ CHR ''='' # v"
    by simp
  show "slice (ind @ ''OPENROUTER_API_KEY='' @ v)
           (indexOf (ind @ ''OPENROUTER_API_KEY='' @ v) CHR ''='' + 1) = v"
    by (simp only: split indexOf_first [OF no_eq] slice_after)
qed

lemma strip_quotes_both:
  "is_quote q \<Longrightarrow> is_quote q' \<Longrightarrow> strip_quotes (q # s @ [q']) = s"
  by (simp add: strip_quotes_def strip_leading_quote_def strip_trailing_quote_def)

lemma strip_quotes_none:
  "s = [] \<or> \<not> is_quote (hd s) \<and> \<not> is_quote (last s) \<Longrightarrow> strip_quotes s = s"
  by (cases s) (auto simp add: strip_quotes_def strip_leading_quote_def strip_trailing_quote_def)

lemma read_key_line:
  assumes readable: "parent_env_file p = Some raw"
    and lines: "split_lines raw = pre @ (ind @ ''OPENROUTER_API_KEY='' @ v) # post"
    and pre: "\<forall>l\<in>set pre. \<not> startsWith (trim l) ''OPENROUTER_API_KEY=''"
    and ind: "\<forall>c\<in>set ind. is_ws c"
  shows "fst (readApiKeyFromParentEnv p) =
           (if strip_quotes (trim v) = [] then None else Some (strip_quotes (trim v)))"
proof -
  let ?line = "ind @ ''OPENROUTER_API_KEY='' @ v"
  have found: "find (\<lambda>line. startsWith (trim line) ''OPENROUTER_API_KEY='') (split_lines raw)
                 = Some ?line"
    unfolding lines using pre key_line_value(1) [OF ind] by (rule find_first [where P = "\<lambda>line. startsWith (trim line) ''OPENROUTER_API_KEY=''"])
  have val: "slice ?line (indexOf ?line CHR ''='' + 1) = v"
    using ind by (rule key_line_value(2))
  show ?thesis
    unfolding readApiKeyFromParentEnv_def Let_def readable option.case found val by simp
qed

text \<open>
  C1. The claim does not hold of the code, which keeps no resolved value: with the
  environment value absent, every invocation of the handler reads the fallback file
  again, so two invocations in one process read it twice. The repository's code review
  (1.4, H3) lists the read on every request as an issue and asks for the cache.
\<close>

theorem fallback_file_read_on_every_request:
  "file_reads (snd (serve
      \<lparr>env_OPENROUTER_API_KEY = None, env_NEXT_PUBLIC_SITE_URL = None,
        parent_env_file = Some ''OPENROUTER_API_KEY=sk-1'', file_reads = 0\<rparr>
      [(InvalidJson, \<lambda>call. FetchThrows), (InvalidJson, \<lambda>call. FetchThrows)])) = 2"
  by (simp add: POST_def getApiKey_def readApiKeyFromParentEnv_def Let_def startsWith_def
      trim_def is_ws_def indexOf_def slice_def strip_quotes_def strip_leading_quote_def
      strip_trailing_quote_def is_quote_def)

text \<open>
  C6. The environment value comes first: present and not blank, it is the credential,
  trimmed, and the file is not read. With the environment value absent the credential
  is what the fallback file gives: the text after \<open>OPENROUTER_API_KEY=\<close> on the first
  line that starts with this key (after white space), trimmed, with a quote at its
  start and a quote at its end removed, and nothing when that is empty. Without a
  credential the handler answers 500 and the provider is not called.
\<close>

theorem credential_resolution:
  "(env_OPENROUTER_API_KEY p = Some e \<and> trim e \<noteq> [] \<longrightarrow> getApiKey p = (Some (trim e), p)) \<and>
   (env_OPENROUTER_API_KEY p = None \<longrightarrow> getApiKey p = readApiKeyFromParentEnv p) \<and>
   (parent_env_file p = Some raw \<and>
    split_lines raw = pre @ (ind @ ''OPENROUTER_API_KEY='' @ v) # post \<and>
    (\<forall>l\<in>set pre. \<not> startsWith (trim l) ''OPENROUTER_API_KEY='') \<and>
    (\<forall>c\<in>set ind. is_ws c) \<longrightarrow>
      fst (readApiKeyFromParentEnv p) =
        (if strip_quotes (trim v) = [] then None else Some (strip_quotes (trim v)))) \<and>
   (is_quote q \<and> is_quote q' \<longrightarrow> strip_quotes (q # s @ [q']) = s) \<and>
   (s = [] \<or> \<not> is_quote (hd s) \<and> \<not> is_quote (last s) \<longrightarrow> strip_quotes s = s) \<and>
   (fst (getApiKey p) = None \<longrightarrow>
      fst (POST p request provider) =
        Responds
          \<lparr>status = 500,
           body = ErrorBody
             ''OPENROUTER_API_KEY is missing. Add it to web/.env.local or ../.env.''\<rparr> \<and>
      fst (snd (POST p request provider)) = [])"
proof -
  have env_first: "env_OPENROUTER_API_KEY p = Some e \<and> trim e \<noteq> [] \<longrightarrow>
      getApiKey p = (Some (trim e), p)"
    by (simp add: getApiKey_def)
  have fallback: "env_OPENROUTER_API_KEY p = None \<longrightarrow> getApiKey p = readApiKeyFromParentEnv p"
    by (simp add: getApiKey_def)
  have refused: "fst (getApiKey p) = None \<longrightarrow>
      fst (POST p request provider) =
        Responds
          \<lparr>status = 500,
           body = ErrorBody
             ''OPENROUTER_API_KEY is missing. Add it to web/.env.local or ../.env.''\<rparr> \<and>
      fst (snd (POST p request provider)) = []"
    by (cases "getApiKey p") (simp add: POST_def)
  show ?thesis
    using env_first fallback refused read_key_line [of p raw pre ind v post]
      strip_quotes_both [of q q' s] strip_quotes_none [of s]
    by blast
qed


theorem credential_resolution_witness:
  "fst (getApiKey
      \<lparr>env_OPENROUTER_API_KEY = None, env_NEXT_PUBLIC_SITE_URL = None,
        parent_env_file =
          Some (''FOO=1'' @ [CHR 0x0D, CHR 0x0A] @ ''  OPENROUTER_API_KEY= \"sk-abc\" '' @ [CHR 0x0A]),
        file_reads = 0\<rparr>) = Some ''sk-abc'' \<and>
   getApiKey
      \<lparr>env_OPENROUTER_API_KEY = Some '' sk-env '', env_NEXT_PUBLIC_SITE_URL = None,
        parent_env_file = None, file_reads = 0\<rparr>
     = (Some ''sk-env'',
        \<lparr>env_OPENROUTER_API_KEY = Some '' sk-env '', env_NEXT_PUBLIC_SITE_URL = None,
          parent_env_file = None, file_reads = 0\<rparr>) \<and>
   strip_quotes ''abc'' = ''abc'' \<and>
   fst (POST
      \<lparr>env_OPENROUTER_API_KEY = None, env_NEXT_PUBLIC_SITE_URL = None,
        parent_env_file = None, file_reads = 0\<rparr>
      (Payload (JObj [(''messages'',
         JArr [JObj [(''role'', JStr ''user''), (''content'', JStr ''hi'')]])]))
      (\<lambda>call. FetchThrows))
     = Responds
         \<lparr>status = 500,
          body = ErrorBody ''OPENROUTER_API_KEY is missing. Add it to web/.env.local or ../.env.''\<rparr>"
proof -
  define raw where
    "raw = ''FOO=1'' @ [CHR 0x0D, CHR 0x0A] @ ''  OPENROUTER_API_KEY= \"sk-abc\" '' @ [CHR 0x0A]"
  define p where
    "p = \<lparr>env_OPENROUTER_API_KEY = None, env_NEXT_PUBLIC_SITE_URL = None,
          parent_env_file = Some raw, file_reads = 0\<rparr>"
  define q where
    "q = \<lparr>env_OPENROUTER_API_KEY = Some '' sk-env '', env_NEXT_PUBLIC_SITE_URL = None,
          parent_env_file = None, file_reads = 0\<rparr>"
  define r where
    "r = \<lparr>env_OPENROUTER_API_KEY = None, env_NEXT_PUBLIC_SITE_URL = None,
          parent_env_file = None, file_reads = 0\<rparr>"
  have lines: "split_lines raw = [''FOO=1''] @ (''  '' @ ''OPENROUTER_API_KEY='' @ '' \"sk-abc\" '') # ['''']"
    by (simp add: raw_def)
  have other: "\<forall>l\<in>set [''FOO=1'']. \<not> startsWith (trim l) ''OPENROUTER_API_KEY=''"
    by (simp add: startsWith_def trim_def is_ws_def)
  have blank: "\<forall>c\<in>set ''  ''. is_ws c"
    by (simp add: is_ws_def)
  have quoted: "trim '' \"sk-abc\" '' = CHR 0x22 # ''sk-abc'' @ [CHR 0x22]"
    by (simp add: trim_def is_ws_def)
  have first: "fst (getApiKey p) = Some ''sk-abc''"
    using credential_resolution [of p undefined raw "[''FOO=1'']" "''  ''" "'' \"sk-abc\" ''" "['''']"
                 "CHR 0x22" "CHR 0x22" "''sk-abc''" undefined undefined]
      lines other blank
    by (simp add: p_def quoted is_quote_def)
  have second: "getApiKey q = (Some ''sk-env'', q)"
    using credential_resolution [of q "'' sk-env ''" undefined undefined undefined undefined undefined
                 undefined undefined undefined undefined undefined]
    by (simp add: q_def trim_def is_ws_def)
  have third: "strip_quotes ''abc'' = ''abc''"
    using credential_resolution [of r undefined undefined undefined undefined undefined undefined
                 undefined undefined "''abc''" undefined undefined]
    by (simp add: is_quote_def)
  have none: "fst (getApiKey r) = None"
    by (simp add: getApiKey_def readApiKeyFromParentEnv_def r_def)
  have fourth: "fst (POST r
      (Payload (JObj [(''messages'',
         JArr [JObj [(''role'', JStr ''user''), (''content'', JStr ''hi'')]])]))
      (\<lambda>call. FetchThrows))
     = Responds
         \<lparr>status = 500,
          body = ErrorBody ''OPENROUTER_API_KEY is missing. Add it to web/.env.local or ../.env.''\<rparr>"
    using credential_resolution [of r undefined undefined undefined undefined undefined undefined
                 undefined undefined undefined
                 "Payload (JObj [(''messages'',
                    JArr [JObj [(''role'', JStr ''user''), (''content'', JStr ''hi'')]])])"
                 "\<lambda>call. FetchThrows"] none
    by simp
  show ?thesis
    using first second third fourth unfolding p_def q_def r_def raw_def by simp
qed

text \<open>
  C10. When no credential is resolved the handler answers 500 whatever the request
  body is, malformed or without a valid message, and the provider is not called.
\<close>

theorem missing_credential_before_body:
  assumes "fst (getApiKey p) = None"
  shows "fst (POST p request provider) =
           Responds
             \<lparr>status = 500,
              body = ErrorBody
                ''OPENROUTER_API_KEY is missing. Add it to web/.env.local or ../.env.''\<rparr> \<and>
         fst (snd (POST p request provider)) = []"
  using assms by (cases "getApiKey p") (simp add: POST_def)

theorem missing_credential_before_body_witness:
  "fst (getApiKey
      \<lparr>env_OPENROUTER_API_KEY = Some '' '', env_NEXT_PUBLIC_SITE_URL = None,
        parent_env_file = Some ''FOO=1'', file_reads = 0\<rparr>) = None \<and>
   fst (POST
      \<lparr>env_OPENROUTER_API_KEY = Some '' '', env_NEXT_PUBLIC_SITE_URL = None,
        parent_env_file = Some ''FOO=1'', file_reads = 0\<rparr>
      InvalidJson (\<lambda>call. FetchThrows))
     = Responds
         \<lparr>status = 500,
          body = ErrorBody ''OPENROUTER_API_KEY is missing. Add it to web/.env.local or ../.env.''\<rparr> \<and>
   fst (POST
      \<lparr>env_OPENROUTER_API_KEY = Some '' '', env_NEXT_PUBLIC_SITE_URL = None,
        parent_env_file = Some ''FOO=1'', file_reads = 0\<rparr>
      (Payload (JObj [(''messages'',
         JArr [JNull, JObj [(''role'', JStr ''user''), (''content'', JStr '' '')]])]))
      (\<lambda>call. FetchThrows))
     = Responds
         \<lparr>status = 500,
          body = ErrorBody ''OPENROUTER_API_KEY is missing. Add it to web/.env.local or ../.env.''\<rparr> \<and>
   fst (POST
      \<lparr>env_OPENROUTER_API_KEY = Some ''sk-1'', env_NEXT_PUBLIC_SITE_URL = None,
        parent_env_file = Some ''FOO=1'', file_reads = 0\<rparr>
      InvalidJson (\<lambda>call. FetchThrows))
     = Responds \<lparr>status = 400, body = ErrorBody ''Invalid JSON body.''\<rparr>"
proof -
  let ?p = "\<lparr>env_OPENROUTER_API_KEY = Some '' '', env_NEXT_PUBLIC_SITE_URL = None,
        parent_env_file = Some ''FOO=1'', file_reads = 0\<rparr>"
  have none: "fst (getApiKey ?p) = None"
    by (simp add: getApiKey_def readApiKeyFromParentEnv_def startsWith_def trim_def is_ws_def)
  have with_key: "fst (POST
      \<lparr>env_OPENROUTER_API_KEY = Some ''sk-1'', env_NEXT_PUBLIC_SITE_URL = None,
        parent_env_file = Some ''FOO=1'', file_reads = 0\<rparr>
      InvalidJson (\<lambda>call. FetchThrows))
     = Responds \<lparr>status = 400, body = ErrorBody ''Invalid JSON body.''\<rparr>"
    by (simp add: POST_def getApiKey_def trim_def is_ws_def)
  show ?thesis
    using none with_key
      missing_credential_before_body [OF none, of InvalidJson "\<lambda>call. FetchThrows"]
      missing_credential_before_body [OF none,
        of "Payload (JObj [(''messages'',
              JArr [JNull, JObj [(''role'', JStr ''user''), (''content'', JStr '' '')]])])"
           "\<lambda>call. FetchThrows"]
    by simp
qed

subsection \<open>The assistant proxy: the sanitized list\<close>

lemma valid_message_null: "valid_message JNull = Inl TypeError"
  by (simp add: valid_message_def get_property_def)

lemma valid_message_survives: "message \<noteq> JNull \<Longrightarrow> valid_message message = Inr (survives message)"
  by (cases message)
    (auto simp add: valid_message_def get_property_def survives_def
      split: option.splits jsval.splits)

lemma filter_messages_survives:
  "JNull \<notin> set ms \<Longrightarrow> filter_messages ms = Inr (filter survives ms)"
  by (induction ms) (auto simp add: valid_message_survives)

lemma filter_messages_null:
  "JNull \<in> set ms \<Longrightarrow> filter_messages ms = Inl TypeError"
proof (induction ms)
  case Nil
  then show ?case by simp
next
  case (Cons m ms)
  show ?case
  proof (cases "m = JNull")
    case True
    then show ?thesis by (simp add: valid_message_null)
  next
    case False
    with Cons show ?thesis by (simp add: valid_message_survives)
  qed
qed

lemma slice_last:
  assumes "0 < n"
  shows "slice xs (- int n) = drop (length xs - n) xs"
proof -
  have "nat (max (int (length xs) + - int n) 0) = length xs - n"
    by arith
  with assms show ?thesis
    by (simp add: slice_def Let_def)
qed

lemma last_entries_drop: "last_entries n xs = drop (length xs - n) xs"
  by (simp add: last_entries_def take_rev)

lemma safeMessages_drop:
  assumes "get_property payload ''messages'' = Inr (Some (JArr ms))" and "JNull \<notin> set ms"
  shows "safeMessages payload
           = Inr (drop (length (filter survives ms) - 12) (filter survives ms))"
  using assms slice_last [of 12 "filter survives ms"]
  by (simp add: safeMessages_def MAX_MESSAGES_def filter_messages_survives)

lemma sanitized_without_null:
  assumes "get_property payload ''messages'' = Inr (Some (JArr ms))" and "JNull \<notin> set ms"
  shows "\<exists>safe. safeMessages payload = Inr safe \<and>
           safe = last_entries 12 (filter survives ms) \<and>
           (\<forall>m\<in>set safe. survives m) \<and>
           (\<forall>m. \<not> survives m \<longrightarrow> m \<notin> set safe) \<and>
           subseq safe ms \<and>
           length safe = min 12 (length (filter survives ms)) \<and>
           (length (filter survives ms) \<le> 12 \<longrightarrow> safe = filter survives ms) \<and>
           (12 < length (filter survives ms) \<longrightarrow>
              safe = drop (length (filter survives ms) - 12) (filter survives ms))"
proof -
  let ?kept = "filter survives ms"
  let ?safe = "drop (length ?kept - 12) ?kept"
  have eq: "safeMessages payload = Inr ?safe"
    using assms by (rule safeMessages_drop)
  have inside: "set ?safe \<subseteq> set ?kept"
    by (rule set_drop_subset)
  have all_survive: "\<forall>m\<in>set ?safe. survives m"
    using inside by auto
  have order: "subseq ?safe ms"
  proof -
    have "subseq ?safe ?kept"
      by (intro suffix_imp_subseq suffix_drop)
    moreover have "subseq ?kept ms"
      by simp
    ultimately show ?thesis
      by (rule subseq_order.order_trans)
  qed
  have len: "length ?safe = min 12 (length ?kept)"
    by simp
  have whole: "?safe = last_entries 12 ?kept"
    by (simp add: last_entries_drop)
  have never: "\<forall>m. \<not> survives m \<longrightarrow> m \<notin> set ?safe"
    using all_survive by blast
  have few: "length ?kept \<le> 12 \<longrightarrow> ?safe = ?kept"
    by simp
  show ?thesis
  proof (intro exI [of _ ?safe] conjI)
    show "safeMessages payload = Inr ?safe" by (rule eq)
    show "?safe = last_entries 12 ?kept" by (rule whole)
    show "\<forall>m\<in>set ?safe. survives m" by (rule all_survive)
    show "\<forall>m. \<not> survives m \<longrightarrow> m \<notin> set ?safe" by (rule never)
    show "subseq ?safe ms" by (rule order)
    show "length ?safe = min 12 (length ?kept)" by (rule len)
    show "length ?kept \<le> 12 \<longrightarrow> ?safe = ?kept" by (rule few)
    show "12 < length ?kept \<longrightarrow> ?safe = drop (length ?kept - 12) ?kept" by (rule impI) (rule refl)
  qed
qed

text \<open>
  C3. The claim does not hold of the code for every list: the callback of the filter
  reads \<open>message.role\<close> of each entry, and of an entry that is \<open>null\<close> the read throws a
  \<open>TypeError\<close> outside both \<open>try\<close> blocks, so the handler ends with the exception
  where the claim has the entry dropped and the valid entries kept. An entry that is a
  number is dropped as the claim says. For a list with no \<open>null\<close> entry the sanitized
  list is the one of the claim (\<open>sanitized_without_null\<close>).
\<close>

theorem null_entry_throws:
  "safeMessages (JObj [(''messages'',
       JArr [JNull, JObj [(''role'', JStr ''user''), (''content'', JStr ''hi'')]])])
     = Inl TypeError \<and>
   fst (POST
      \<lparr>env_OPENROUTER_API_KEY = Some ''sk-1'', env_NEXT_PUBLIC_SITE_URL = None,
        parent_env_file = None, file_reads = 0\<rparr>
      (Payload (JObj [(''messages'',
         JArr [JNull, JObj [(''role'', JStr ''user''), (''content'', JStr ''hi'')]])]))
      (\<lambda>call. FetchThrows))
     = Uncaught TypeError \<and>
   safeMessages (JObj [(''messages'',
       JArr [JNum ''7'', JObj [(''role'', JStr ''user''), (''content'', JStr ''hi'')]])])
     = Inr [JObj [(''role'', JStr ''user''), (''content'', JStr ''hi'')]]"
  by (simp add: POST_def getApiKey_def safeMessages_def valid_message_def get_property_def
      slice_def MAX_MESSAGES_def trim_def is_ws_def)

subsection \<open>The assistant proxy: the reply\<close>

lemma chunk_text_by_field:
  "chunk_text c =
     (case c of
        JStr s \<Rightarrow> Inr s
      | _ \<Rightarrow>
          (case text_field c of
             None \<Rightarrow> Inr []
           | Some JNull \<Rightarrow> Inr []
           | Some t \<Rightarrow> js_String t))"
  by (cases c) (simp_all add: chunk_text_def text_field_def split: option.splits jsval.splits)

lemma js_String_result: "js_String t = Inl TypeError \<or> (\<exists>s. js_String t = Inr s)"
proof (cases "js_String t")
  case (Inl e)
  then show ?thesis by (cases e) simp
next
  case (Inr s)
  then show ?thesis by simp
qed

lemma chunk_text_contributed:
  assumes "printable c"
  shows "chunk_text c = Inr (contributed c)"
proof (cases "text_field c")
  case None
  then show ?thesis
    by (cases c) (simp_all add: chunk_text_by_field contributed_def)
next
  case (Some t)
  then have object: "\<forall>s. c \<noteq> JStr s"
    by (auto simp add: text_field_def)
  show ?thesis
  proof (cases "t = JNull")
    case True
    with Some object show ?thesis
      by (cases c) (simp_all add: chunk_text_by_field contributed_def)
  next
    case False
    with assms Some have "js_String t \<noteq> Inl TypeError"
      by (simp add: printable_def)
    then obtain s where "js_String t = Inr s"
      using js_String_result [of t] by blast
    with Some False object show ?thesis
      by (cases c; cases t) (simp_all add: chunk_text_by_field contributed_def)
  qed
qed

lemma chunk_text_throws:
  assumes "\<not> printable c"
  shows "chunk_text c = Inl TypeError"
proof -
  from assms obtain t where t: "text_field c = Some t" "t \<noteq> JNull" "js_String t = Inl TypeError"
    by (auto simp add: printable_def split: option.splits)
  then have "\<forall>s. c \<noteq> JStr s"
    by (auto simp add: text_field_def)
  with t show ?thesis
    by (cases c; cases t) (simp_all add: chunk_text_by_field)
qed

lemma map_chunks_contributed:
  "\<forall>c\<in>set cs. printable c \<Longrightarrow> map_chunks cs = Inr (map contributed cs)"
  by (induction cs) (simp_all add: chunk_text_contributed)

lemma map_chunks_throws:
  "\<exists>c\<in>set cs. \<not> printable c \<Longrightarrow> map_chunks cs = Inl TypeError"
proof (induction cs)
  case Nil
  then show ?case by simp
next
  case (Cons c cs)
  show ?case
  proof (cases "printable c")
    case False
    then show ?thesis by (simp add: chunk_text_throws)
  next
    case True
    with Cons have "map_chunks cs = Inl TypeError" by auto
    with True show ?thesis by (simp add: chunk_text_contributed)
  qed
qed

text \<open>
  C4, as amended. A content that is a plain string is normalized to the string,
  trimmed, and a content that is neither a string nor a sequence to the empty text. A
  content that is a sequence is normalized to what its elements contribute, the empty
  contributions left out and the others joined by newlines in their order, then
  trimmed: a chunk tagged \<open>text\<close> contributes its text field (a string as it is,
  \<open>null\<close> as nothing, another value as \<open>String\<close> prints it), whatever other properties
  it has, an element that is a bare string contributes itself, and every other element
  is ignored. This holds whenever \<open>String\<close> can print each such text field; when it
  cannot, the normalization throws. So \<open>hello\<close> gives \<open>hello\<close>, and a \<open>text\<close> chunk
  \<open>a\<close>, an \<open>image\<close> chunk and a \<open>text\<close> chunk \<open>b\<close> give \<open>a\<close>, a newline, \<open>b\<close>.
\<close>

theorem normalized_content:
  "extractAssistantText (Some (JStr s)) = Inr (trim s) \<and>
   ((\<forall>c\<in>set cs. printable c) \<longrightarrow>
      extractAssistantText (Some (JArr cs))
        = Inr (trim (join ''\<newline>'' (filter (\<lambda>t. t \<noteq> []) (map contributed cs))))) \<and>
   ((\<exists>c\<in>set cs. \<not> printable c) \<longrightarrow>
      extractAssistantText (Some (JArr cs)) = Inl TypeError) \<and>
   ((\<forall>t. content \<noteq> Some (JStr t)) \<and> (\<forall>ts. content \<noteq> Some (JArr ts)) \<longrightarrow>
      extractAssistantText content = Inr []) \<and>
   contributed (JObj ((''type'', JStr ''text'') # (''text'', JStr s) # props)) = s \<and>
   contributed (JObj ((''text'', JStr s) # (''type'', JStr ''text'') # props)) = s \<and>
   contributed (JStr s) = s \<and>
   (tag \<noteq> ''text'' \<longrightarrow> contributed (JObj ((''type'', JStr tag) # props)) = []) \<and>
   extractAssistantText (Some (JStr ''hello'')) = Inr ''hello'' \<and>
   extractAssistantText (Some (JArr
       [JObj [(''type'', JStr ''text''), (''text'', JStr ''a'')],
        JObj [(''type'', JStr ''image''), (''url'', JStr ''u'')],
        JObj [(''type'', JStr ''text''), (''text'', JStr ''b'')]]))
     = Inr ''a\<newline>b''"
proof -
  have plain: "extractAssistantText (Some (JStr s)) = Inr (trim s)"
    by (simp add: extractAssistantText_def)
  have chunks: "(\<forall>c\<in>set cs. printable c) \<longrightarrow>
      extractAssistantText (Some (JArr cs))
        = Inr (trim (join ''\<newline>'' (filter (\<lambda>t. t \<noteq> []) (map contributed cs))))"
    by (simp add: extractAssistantText_def map_chunks_contributed)
  have throws: "(\<exists>c\<in>set cs. \<not> printable c) \<longrightarrow>
      extractAssistantText (Some (JArr cs)) = Inl TypeError"
    by (simp add: extractAssistantText_def map_chunks_throws)
  have other: "(\<forall>t. content \<noteq> Some (JStr t)) \<and> (\<forall>ts. content \<noteq> Some (JArr ts)) \<longrightarrow>
      extractAssistantText content = Inr []"
    by (auto simp add: extractAssistantText_def split: option.splits jsval.splits)
  have tagged: "contributed (JObj ((''type'', JStr ''text'') # (''text'', JStr s) # props)) = s"
    "contributed (JObj ((''text'', JStr s) # (''type'', JStr ''text'') # props)) = s"
    by (simp_all add: contributed_def text_field_def)
  have bare: "contributed (JStr s) = s"
    by (simp add: contributed_def)
  have ignored: "tag \<noteq> ''text'' \<longrightarrow> contributed (JObj ((''type'', JStr tag) # props)) = []"
    by (simp add: contributed_def text_field_def)
  have hello: "extractAssistantText (Some (JStr ''hello'')) = Inr ''hello''"
    by (simp add: extractAssistantText_def trim_def is_ws_def)
  have mixed: "extractAssistantText (Some (JArr
       [JObj [(''type'', JStr ''text''), (''text'', JStr ''a'')],
        JObj [(''type'', JStr ''image''), (''url'', JStr ''u'')],
        JObj [(''type'', JStr ''text''), (''text'', JStr ''b'')]]))
     = Inr ''a\<newline>b''"
    by (simp add: extractAssistantText_def chunk_text_def trim_def is_ws_def)
  from plain chunks throws other tagged bare ignored hello mixed show ?thesis
    by (intro conjI)
qed

theorem normalized_content_witness:
  "extractAssistantText (Some (JArr
       [JObj [(''type'', JStr ''text''), (''text'', JStr ''a''), (''annotations'', JArr [])],
        JObj [(''type'', JStr ''tool''), (''text'', JStr ''n'')],
        JStr ''x'',
        JNum ''7'',
        JNull,
        JObj [(''type'', JStr ''text''), (''text'', JStr [])],
        JObj [(''type'', JStr ''text''), (''text'', JNull)],
        JObj [(''type'', JStr ''text'')],
        JObj [(''type'', JStr ''text''), (''text'', JArr [JNum ''1'', JNull, JBool True])],
        JObj [(''text'', JStr ''b ''), (''type'', JStr ''text'')]]))
     = Inr ''a\<newline>x\<newline>1,,true\<newline>b'' \<and>
   extractAssistantText (Some (JArr
       [JObj [(''type'', JStr ''text''), (''text'', JStr ''a'')],
        JObj [(''type'', JStr ''text''), (''text'', JObj [(''toString'', JNum ''1'')])]]))
     = Inl TypeError \<and>
   extractAssistantText (Some (JObj [(''type'', JStr ''text''), (''text'', JStr ''a'')])) = Inr []"
proof -
  let ?cs = "[JObj [(''type'', JStr ''text''), (''text'', JStr ''a''), (''annotations'', JArr [])],
        JObj [(''type'', JStr ''tool''), (''text'', JStr ''n'')],
        JStr ''x'',
        JNum ''7'',
        JNull,
        JObj [(''type'', JStr ''text''), (''text'', JStr [])],
        JObj [(''type'', JStr ''text''), (''text'', JNull)],
        JObj [(''type'', JStr ''text'')],
        JObj [(''type'', JStr ''text''), (''text'', JArr [JNum ''1'', JNull, JBool True])],
        JObj [(''text'', JStr ''b ''), (''type'', JStr ''text'')]]"
  let ?bad = "[JObj [(''type'', JStr ''text''), (''text'', JStr ''a'')],
        JObj [(''type'', JStr ''text''), (''text'', JObj [(''toString'', JNum ''1'')])]]"
  let ?object = "Some (JObj [(''type'', JStr ''text''), (''text'', JStr ''a'')])"
  have good: "\<forall>c\<in>set ?cs. printable c"
    by (simp add: printable_def text_field_def)
  have texts: "map contributed ?cs = [''a'', [], ''x'', [], [], [], [], [], ''1,,true'', ''b '']"
    by (simp add: contributed_def text_field_def)
  have bad: "\<exists>c\<in>set ?bad. \<not> printable c"
    by (simp add: printable_def text_field_def)
  have joined: "trim (join ''\<newline>''
      (filter (\<lambda>t. t \<noteq> []) [''a'', [], ''x'', [], [], [], [], [], ''1,,true'', ''b '']))
      = ''a\<newline>x\<newline>1,,true\<newline>b''"
    by (simp add: trim_def is_ws_def)
  have "extractAssistantText (Some (JArr ?cs))
      = Inr (trim (join ''\<newline>'' (filter (\<lambda>t. t \<noteq> []) (map contributed ?cs))))"
    using good
    by (rule normalized_content
        [of undefined ?cs undefined undefined undefined,
         THEN conjunct2, THEN conjunct1, THEN mp])
  then have first: "extractAssistantText (Some (JArr ?cs)) = Inr ''a\<newline>x\<newline>1,,true\<newline>b''"
    by (simp only: texts joined)
  have second: "extractAssistantText (Some (JArr ?bad)) = Inl TypeError"
    using bad
    by (rule normalized_content
        [of undefined ?bad undefined undefined undefined,
         THEN conjunct2, THEN conjunct2, THEN conjunct1, THEN mp])
  have neither: "(\<forall>t. ?object \<noteq> Some (JStr t)) \<and> (\<forall>ts. ?object \<noteq> Some (JArr ts))"
    by simp
  have third: "extractAssistantText ?object = Inr []"
    using neither
    by (rule normalized_content
        [of undefined undefined ?object undefined undefined,
         THEN conjunct2, THEN conjunct2, THEN conjunct2, THEN conjunct1, THEN mp])
  from first second third show ?thesis
    by (intro conjI)
qed

text \<open>
  C4 as stated fails: a \<open>text\<close> chunk with an empty text adds no line of its own, and
  an element that is a bare string, with no tag at all, is part of the result.
\<close>

theorem empty_and_bare_chunks_counterexample:
  "extractAssistantText (Some (JArr
       [JObj [(''type'', JStr ''text''), (''text'', JStr ''a'')],
        JObj [(''type'', JStr ''text''), (''text'', JStr [])],
        JObj [(''type'', JStr ''text''), (''text'', JStr ''b'')]]))
     \<noteq> Inr (trim (join ''\<newline>'' [''a'', [], ''b''])) \<and>
   extractAssistantText (Some (JArr [JStr ''x''])) \<noteq> Inr (trim (join ''\<newline>'' []))"
  by (simp add: extractAssistantText_def chunk_text_def trim_def is_ws_def)

text \<open>
  C5. When the credential is resolved, a message survives, and the provider answers
  with a success status: an empty normalized reply gives the 502 answer
  \<open>Model returned an empty response.\<close>, a normalized reply that is not empty gives
  the success payload with this reply and the model, and a success payload is returned
  if and only if the normalized reply is not empty.
\<close>

theorem empty_reply_is_upstream_error:
  assumes "getApiKey p = (Some apiKey, p')"
    and "safeMessages payload = Inr safe"
    and "safe \<noteq> []"
    and "provider (provider_call p' apiKey safe) = ProviderResponse True d"
  shows "(extractAssistantText (first_content d) = Inr [] \<longrightarrow>
            fst (POST p (Payload payload) provider) =
              Responds \<lparr>status = 502, body = ErrorBody ''Model returned an empty response.''\<rparr>) \<and>
         (\<forall>reply. extractAssistantText (first_content d) = Inr reply \<and> reply \<noteq> [] \<longrightarrow>
            fst (POST p (Payload payload) provider) =
              Responds \<lparr>status = 200, body = ReplyBody reply OPENROUTER_MODEL\<rparr>) \<and>
         ((\<exists>code reply m. fst (POST p (Payload payload) provider)
              = Responds \<lparr>status = code, body = ReplyBody reply m\<rparr>) \<longleftrightarrow>
          (\<exists>reply. extractAssistantText (first_content d) = Inr reply \<and> reply \<noteq> []))"
proof -
  have "fst (POST p (Payload payload) provider)
          = Responds (provider_reply (ProviderResponse True d))"
    using assms by (simp add: POST_def Let_def)
  then show ?thesis
    by (auto simp add: provider_reply_def split: sum.splits)
qed

theorem empty_reply_is_upstream_error_witness:
  "fst (POST
      \<lparr>env_OPENROUTER_API_KEY = Some ''sk-1'', env_NEXT_PUBLIC_SITE_URL = None,
        parent_env_file = None, file_reads = 0\<rparr>
      (Payload (JObj [(''messages'',
         JArr [JObj [(''role'', JStr ''user''), (''content'', JStr ''hi'')]])]))
      (\<lambda>call. ProviderResponse True
         \<lparr>data_error = None,
          data_choices = Some [\<lparr>choice_message = Some \<lparr>message_content = Some (JStr '' '')\<rparr>\<rparr>]\<rparr>))
     = Responds \<lparr>status = 502, body = ErrorBody ''Model returned an empty response.''\<rparr> \<and>
   fst (POST
      \<lparr>env_OPENROUTER_API_KEY = Some ''sk-1'', env_NEXT_PUBLIC_SITE_URL = None,
        parent_env_file = None, file_reads = 0\<rparr>
      (Payload (JObj [(''messages'',
         JArr [JObj [(''role'', JStr ''user''), (''content'', JStr ''hi'')]])]))
      (\<lambda>call. ProviderResponse True
         \<lparr>data_error = None,
          data_choices = Some [\<lparr>choice_message = Some \<lparr>message_content = Some (JStr ''ok'')\<rparr>\<rparr>]\<rparr>))
     = Responds \<lparr>status = 200, body = ReplyBody ''ok'' OPENROUTER_MODEL\<rparr>"
proof -
  let ?p = "\<lparr>env_OPENROUTER_API_KEY = Some ''sk-1'', env_NEXT_PUBLIC_SITE_URL = None,
        parent_env_file = None, file_reads = 0\<rparr>"
  let ?payload = "JObj [(''messages'',
         JArr [JObj [(''role'', JStr ''user''), (''content'', JStr ''hi'')]])]"
  let ?safe = "[JObj [(''role'', JStr ''user''), (''content'', JStr ''hi'')]]"
  let ?blank = "\<lparr>data_error = None,
          data_choices = Some [\<lparr>choice_message = Some \<lparr>message_content = Some (JStr '' '')\<rparr>\<rparr>]\<rparr>"
  let ?ok = "\<lparr>data_error = None,
          data_choices = Some [\<lparr>choice_message = Some \<lparr>message_content = Some (JStr ''ok'')\<rparr>\<rparr>]\<rparr>"
  have resolved: "getApiKey ?p = (Some ''sk-1'', ?p)"
    by (simp add: getApiKey_def trim_def is_ws_def)
  have kept: "safeMessages ?payload = Inr ?safe"
    by (simp add: safeMessages_def valid_message_def get_property_def slice_def
        MAX_MESSAGES_def trim_def is_ws_def)
  have some: "?safe \<noteq> []"
    by simp
  have blank: "extractAssistantText (first_content ?blank) = Inr []"
    by (simp add: extractAssistantText_def first_content_def trim_def is_ws_def)
  have ok: "extractAssistantText (first_content ?ok) = Inr ''ok''"
    by (simp add: extractAssistantText_def first_content_def trim_def is_ws_def)
  show ?thesis
    using empty_reply_is_upstream_error
        [of ?p "''sk-1''" ?p ?payload ?safe "\<lambda>call. ProviderResponse True ?blank" ?blank,
         OF resolved kept some]
      empty_reply_is_upstream_error
        [of ?p "''sk-1''" ?p ?payload ?safe "\<lambda>call. ProviderResponse True ?ok" ?ok,
         OF resolved kept some]
      blank ok
    by simp
qed

subsection \<open>The chat client\<close>

text \<open>
  C2. The claim does not hold of the code: the greeting is made by \<open>newMessage\<close> like
  every other message, so its identifier is \<open>assistant-\<close>, the clock value, \<open>-\<close>, the
  random text, and differs between two renderings of the same initial state; and a
  message made later with the clock value and random text of the greeting gets the
  greeting's identifier. The repository's code review (1.1, C1 of its section 10)
  lists the identifier of the seed message as a bug and asks for a fixed one.
\<close>

theorem greeting_id_follows_clock_and_random:
  "msg_id (hd (messages (DigitalTwinChat 1 ''abc''))) = ''assistant-1-abc'' \<and>
   msg_id (hd (messages (DigitalTwinChat 2 ''abc''))) = ''assistant-2-abc'' \<and>
   msg_id (hd (messages (DigitalTwinChat 1 ''abd''))) = ''assistant-1-abd'' \<and>
   map msg_id (messages (run (\<lambda>e. ''TypeError'') (DigitalTwinChat 5 ''abc'')
      [Submit ''hi'' 6 ''def'',
       Settle (Responded True (JObj [(''reply'', JStr ''yo''), (''model'', JStr ''m'')]))
         5 ''abc'']))
     = [''assistant-5-abc'', ''user-6-def'', ''assistant-5-abc''] \<and>
   \<not> distinct (map msg_id (messages (run (\<lambda>e. ''TypeError'') (DigitalTwinChat 5 ''abc'')
      [Submit ''hi'' 6 ''def'',
       Settle (Responded True (JObj [(''reply'', JStr ''yo''), (''model'', JStr ''m'')]))
         5 ''abc''])))"
  by (simp add: run_def DigitalTwinChat_def apply_operation_def sendPrompt_def settle_def
      on_success_def reply_text_def get_property_def Let_def trim_def is_ws_def newMessage_def
      role_text_def decimal_def digits.simps digit_def)

text \<open>
  C7. Whenever the trimmed input is empty or a request is in flight (\<open>isLoading\<close>),
  \<open>sendPrompt\<close> changes nothing: the state is the same, so the conversation and the
  status are, and no request is sent.
\<close>

theorem sendPrompt_no_op:
  assumes "trim rawPrompt = [] \<or> isLoading s"
  shows "sendPrompt s rawPrompt now rnd = (s, None) \<and>
         messages (fst (sendPrompt s rawPrompt now rnd)) = messages s \<and>
         shown_status (fst (sendPrompt s rawPrompt now rnd)) = shown_status s \<and>
         snd (sendPrompt s rawPrompt now rnd) = None"
proof -
  from assms have "sendPrompt s rawPrompt now rnd = (s, None)"
    unfolding sendPrompt_def Let_def by auto
  then show ?thesis by simp
qed

theorem sendPrompt_no_op_witness:
  "trim [CHR 0x20, CHR 0x0A] = [] \<and>
   sendPrompt (DigitalTwinChat 5 ''abc'') [CHR 0x20, CHR 0x0A] 6 ''def''
     = (DigitalTwinChat 5 ''abc'', None) \<and>
   isLoading (fst (sendPrompt (DigitalTwinChat 5 ''abc'') ''hi'' 6 ''def'')) \<and>
   snd (sendPrompt (fst (sendPrompt (DigitalTwinChat 5 ''abc'') ''hi'' 6 ''def'')) ''again'' 7 ''ghi'')
     = None"
proof -
  have blank: "trim [CHR 0x20, CHR 0x0A] = []"
    by (simp add: trim_def is_ws_def)
  have busy: "isLoading (fst (sendPrompt (DigitalTwinChat 5 ''abc'') ''hi'' 6 ''def''))"
    by (simp add: sendPrompt_def DigitalTwinChat_def trim_def is_ws_def Let_def)
  show ?thesis
    using blank busy
      sendPrompt_no_op [of "[CHR 0x20, CHR 0x0A]" "DigitalTwinChat 5 ''abc''" 6 "''def''"]
      sendPrompt_no_op [of "''again''" "fst (sendPrompt (DigitalTwinChat 5 ''abc'') ''hi'' 6 ''def'')"
        7 "''ghi''"]
    by simp
qed











end
